theory Spec2Isabelle
  imports Complex_Main "HOL-Library.Multiset"
begin

section \<open>COVID-19 Global Data Tracker: the cleaning and derivation pipeline\<close>

text \<open>
  A shallow embedding of \<^verbatim>\<open>src/main.ipynb\<close>: the notebook's cells as functions,
  data frames as lists of rows, the columns the notebook reads as record fields, and the
  pandas operations it calls (\<^verbatim>\<open>isin\<close>, \<^verbatim>\<open>fillna\<close>, \<^verbatim>\<open>replace\<close>, \<^verbatim>\<open>max\<close>, \<^verbatim>\<open>sort_values\<close>,
  boolean indexing, column arithmetic) as functions on cells and rows.
\<close>

subsection \<open>Cells\<close>

text \<open>
  A cell of a \<^verbatim>\<open>float64\<close> column. \<open>Num x\<close> is the finite value \<open>x\<close>, \<open>Num 0\<close> being the
  positive zero, and \<open>NegZero\<close> is \<^verbatim>\<open>-0.0\<close>; \<open>PosInf\<close> and \<open>NegInf\<close> are \<^verbatim>\<open>np.inf\<close> and
  \<^verbatim>\<open>-np.inf\<close>; \<open>NaN\<close> is pandas' marker of a missing value ("no value").
\<close>

datatype float64 = Num real | NegZero | PosInf | NegInf | NaN

definition is_zero :: "float64 \<Rightarrow> bool" where
  "is_zero x = (x = Num 0 \<or> x = NegZero)"

definition is_inf :: "float64 \<Rightarrow> bool" where
  "is_inf x = (x = PosInf \<or> x = NegInf)"

fun signbit :: "float64 \<Rightarrow> bool" where
  "signbit (Num x) = (x < 0)"
| "signbit NegZero = True"
| "signbit PosInf = False"
| "signbit NegInf = True"
| "signbit NaN = False"

fun value_of :: "float64 \<Rightarrow> real" where
  "value_of (Num x) = x"
| "value_of _ = 0"

definition signed_zero :: "bool \<Rightarrow> float64" where
  "signed_zero negative = (if negative then NegZero else Num 0)"

definition signed_inf :: "bool \<Rightarrow> float64" where
  "signed_inf negative = (if negative then NegInf else PosInf)"

text \<open>
  An arithmetic operation on two finite, nonzero values returns the exact result rounded
  to a \<^verbatim>\<open>float64\<close>: a finite value, a zero where the result underflows, an infinity where
  it overflows. Which one is IEEE 754's business: the rounding is a parameter of the
  model, and what is proved holds for every rounding.
\<close>

type_synonym rounding = "real \<Rightarrow> float64"

text \<open>
  Column division \<^verbatim>\<open>a / b\<close>, elementwise, as numpy computes it: a missing operand, 0 / 0
  and inf / inf give NaN; a division by a zero or of an infinity gives an infinity, a
  division of a zero or by an infinity a zero, each with the sign of the operands' signs.
\<close>

definition fdiv :: "rounding \<Rightarrow> float64 \<Rightarrow> float64 \<Rightarrow> float64" where
  "fdiv rnd a b =
     (if a = NaN \<or> b = NaN then NaN
      else if (is_zero a \<and> is_zero b) \<or> (is_inf a \<and> is_inf b) then NaN
      else if is_inf a \<or> is_zero b then signed_inf (signbit a \<noteq> signbit b)
      else if is_zero a \<or> is_inf b then signed_zero (signbit a \<noteq> signbit b)
      else rnd (value_of a / value_of b))"

text \<open>Column multiplication \<^verbatim>\<open>a * b\<close>, elementwise: 0 * inf gives NaN.\<close>

definition fmul :: "rounding \<Rightarrow> float64 \<Rightarrow> float64 \<Rightarrow> float64" where
  "fmul rnd a b =
     (if a = NaN \<or> b = NaN then NaN
      else if (is_zero a \<and> is_inf b) \<or> (is_inf a \<and> is_zero b) then NaN
      else if is_inf a \<or> is_inf b then signed_inf (signbit a \<noteq> signbit b)
      else if is_zero a \<or> is_zero b then signed_zero (signbit a \<noteq> signbit b)
      else rnd (value_of a * value_of b))"

text \<open>\<^verbatim>\<open>fillna(v)\<close> on one cell.\<close>

definition fillna :: "float64 \<Rightarrow> float64 \<Rightarrow> float64" where
  "fillna v x = (if x = NaN then v else x)"

text \<open>\<^verbatim>\<open>replace(olds, new)\<close> on one cell.\<close>

definition replace_values :: "float64 list \<Rightarrow> float64 \<Rightarrow> float64 \<Rightarrow> float64" where
  "replace_values olds new x = (if x \<in> set olds then new else x)"

text \<open>
  A value of a \<^verbatim>\<open>datetime64\<close> column: the null date \<open>NaT\<close> or a timestamp, here an
  integer that orders the dates.
\<close>

datatype datetime64 = NaT | Stamp int

text \<open>
  A cell of the \<^verbatim>\<open>date\<close> column: text as \<^verbatim>\<open>read_csv\<close> loads it, a missing entry, or,
  after \<^verbatim>\<open>pd.to_datetime\<close>, a \<^verbatim>\<open>datetime64\<close> value.
\<close>

datatype date_cell = DateText string | DateMissing | DateTime datetime64

subsection \<open>Rows and tables\<close>

text \<open>
  One row of \<^verbatim>\<open>owid-covid-data.csv\<close>. A text cell is \<open>None\<close> when the entry is
  missing. \<open>other_columns\<close> holds the numeric columns the notebook never names.
\<close>

record row =
  location :: "string option"
  iso_code :: "string option"
  date :: date_cell
  total_cases :: float64
  new_cases :: float64
  total_deaths :: float64
  new_deaths :: float64
  total_vaccinations :: float64
  people_vaccinated :: float64
  population :: float64
  total_cases_per_million :: float64
  other_columns :: "(string \<times> float64) list"

text \<open>A row of \<^verbatim>\<open>df_filtered\<close>: the source columns and the derived \<^verbatim>\<open>death_rate\<close>.\<close>

record frow = row +
  death_rate :: float64

text \<open>A row of \<^verbatim>\<open>df_latest\<close> once the vaccination cell has added \<^verbatim>\<open>pct_vaccinated\<close>.\<close>

record vrow = frow +
  pct_vaccinated :: float64

subsection \<open>Configuration constants\<close>

definition countries :: "string list" where
  "countries = [''United States'', ''India'', ''Brazil'', ''United Kingdom'', ''Kenya'',
     ''South Africa'']"

text \<open>\<^verbatim>\<open>key_columns\<close>, each column given by the function that rewrites it.\<close>

definition key_columns :: "((float64 \<Rightarrow> float64) \<Rightarrow> row \<Rightarrow> row) list" where
  "key_columns = [total_cases_update, new_cases_update, total_deaths_update,
     new_deaths_update, total_vaccinations_update, people_vaccinated_update,
     population_update]"

subsection \<open>The pandas operations the notebook calls\<close>

datatype error = NameError string | DateParseError

text \<open>
  \<^verbatim>\<open>pd.to_datetime\<close> on the date column. How text is read as a date is pandas' business:
  the parser is a parameter, \<open>None\<close> where pandas raises on the text.
\<close>

fun to_datetime_cell :: "(string \<Rightarrow> datetime64 option) \<Rightarrow> date_cell \<Rightarrow> error + date_cell" where
  "to_datetime_cell parse (DateText s) =
     (case parse s of None \<Rightarrow> Inl DateParseError | Some t \<Rightarrow> Inr (DateTime t))"
| "to_datetime_cell parse DateMissing = Inr (DateTime NaT)"
| "to_datetime_cell parse (DateTime t) = Inr (DateTime t)"

text \<open>
  \<^verbatim>\<open>df['date'] = pd.to_datetime(df['date'])\<close>: the column is converted as a whole and
  then assigned, so a failure leaves no table behind.
\<close>

fun to_datetime :: "(string \<Rightarrow> datetime64 option) \<Rightarrow> row list \<Rightarrow> error + row list" where
  "to_datetime parse [] = Inr []"
| "to_datetime parse (r # rs) =
     (case to_datetime_cell parse (date r) of
        Inl e \<Rightarrow> Inl e
      | Inr d \<Rightarrow>
         (case to_datetime parse rs of
            Inl e \<Rightarrow> Inl e
          | Inr rs' \<Rightarrow> Inr (r\<lparr>date := d\<rparr> # rs')))"

text \<open>\<^verbatim>\<open>Series.isin(values)\<close> on one cell of a text column: a missing entry is in no list.\<close>

definition isin :: "string option \<Rightarrow> string list \<Rightarrow> bool" where
  "isin x vs = (case x of None \<Rightarrow> False | Some s \<Rightarrow> s \<in> set vs)"

text \<open>\<^verbatim>\<open>df[cols] = df[cols].fillna(v)\<close>.\<close>

definition fillna_columns ::
  "((float64 \<Rightarrow> float64) \<Rightarrow> row \<Rightarrow> row) list \<Rightarrow> float64 \<Rightarrow> row list \<Rightarrow> row list" where
  "fillna_columns cols v rows = map (\<lambda>r. fold (\<lambda>upd. upd (fillna v)) cols r) rows"

text \<open>
  \<^verbatim>\<open>Series.max()\<close> on a datetime column: null dates are skipped, and the maximum of no
  date at all is \<open>NaT\<close>; nothing is raised. After \<open>to_datetime\<close> the column holds
  \<open>DateTime\<close> cells only.
\<close>

fun series_max :: "date_cell list \<Rightarrow> datetime64" where
  "series_max [] = NaT"
| "series_max (DateTime (Stamp t) # cs) =
     (case series_max cs of NaT \<Rightarrow> Stamp t | Stamp u \<Rightarrow> Stamp (max t u))"
| "series_max (_ # cs) = series_max cs"

text \<open>\<^verbatim>\<open>df['date'] == latest_date\<close> on one cell: a null date equals nothing.\<close>

fun date_eq :: "date_cell \<Rightarrow> datetime64 \<Rightarrow> bool" where
  "date_eq (DateTime (Stamp t)) (Stamp u) = (t = u)"
| "date_eq _ _ = False"

text \<open>
  \<^verbatim>\<open>sort_values(key, ascending=False)\<close>: descending, missing values last. Written as
  an insertion sort; pandas does not promise an order among equal keys.
\<close>

fun ranks_before :: "float64 \<Rightarrow> float64 \<Rightarrow> bool" where
  "ranks_before _ NaN = True"
| "ranks_before NaN _ = False"
| "ranks_before PosInf _ = True"
| "ranks_before _ PosInf = False"
| "ranks_before _ NegInf = True"
| "ranks_before NegInf _ = False"
| "ranks_before a b = (value_of b \<le> value_of a)"

fun insert_desc :: "('a \<Rightarrow> float64) \<Rightarrow> 'a \<Rightarrow> 'a list \<Rightarrow> 'a list" where
  "insert_desc key x [] = [x]"
| "insert_desc key x (y # ys) =
     (if ranks_before (key x) (key y) then x # y # ys else y # insert_desc key x ys)"

definition sort_values_desc :: "('a \<Rightarrow> float64) \<Rightarrow> 'a list \<Rightarrow> 'a list" where
  "sort_values_desc key rows = foldr (insert_desc key) rows []"

subsection \<open>The notebook's cells\<close>

text \<open>
  What a cell prints: a line of text, the row count of \<^verbatim>\<open>df.shape\<close>, a report whose content
  is not modelled (named by the expression printed), and the line of cell 3 with the
  number of countries and the latest date.
\<close>

datatype printout = Text string | Shape nat | Report string | LatestDate nat datetime64

text \<open>
  Cell 1 (lines 33-39). The file is given as \<^verbatim>\<open>read_csv\<close> would load it, \<open>None\<close> when it
  is absent. On \<^verbatim>\<open>FileNotFoundError\<close> the two messages are printed and the name \<^verbatim>\<open>df\<close> stays
  unbound.
\<close>

definition cell_load :: "row list option \<Rightarrow> printout list \<times> row list option" where
  "cell_load file =
     (case file of
        Some table \<Rightarrow> ([Text ''Data loaded successfully!'', Shape (length table)], Some table)
      | None \<Rightarrow>
         ([Text ''Error: File not found. Please download the dataset first.'',
           Text ''Download from: https://ourworldindata.org/covid-cases''], None))"

text \<open>
  Cell 2 (lines 50-59). The header is printed first; \<^verbatim>\<open>df.info()\<close> then reads the name
  \<^verbatim>\<open>df\<close>, which raises \<^verbatim>\<open>NameError\<close> when cell 1 bound nothing.
\<close>

definition cell_explore :: "row list option \<Rightarrow> printout list \<times> error option" where
  "cell_explore df_var =
     (case df_var of
        None \<Rightarrow> ([Text [], Text ''=== Dataset Info ===''], Some (NameError ''df''))
      | Some table \<Rightarrow>
         ([Text [], Text ''=== Dataset Info ==='', Report ''df.info()'',
           Text [], Text ''=== First 5 Rows ==='', Report ''df.head()'',
           Text [], Text ''=== Missing Values ==='', Report ''df.isnull().sum()''], None))"

text \<open>What cell 3 leaves bound.\<close>

record cleaned =
  df :: "row list"
  df_filtered :: "frow list"
  latest_date :: datetime64
  df_latest :: "frow list"

text \<open>Cell 3 (lines 70-87).\<close>

definition cell_clean ::
  "rounding \<Rightarrow> (string \<Rightarrow> datetime64 option) \<Rightarrow> row list \<Rightarrow> error + cleaned" where
  "cell_clean rnd parse table =
     (case to_datetime parse table of
        Inl e \<Rightarrow> Inl e
      | Inr df1 \<Rightarrow>
         (let df_filtered0 = filter (\<lambda>r. isin (location r) countries) df1;
              df_filtered1 = fillna_columns key_columns (Num 0) df_filtered0;
              df_filtered2 =
                map (\<lambda>r. row.extend r \<lparr>death_rate = fdiv rnd (total_deaths r) (total_cases r)\<rparr>)
                  df_filtered1;
              df_filtered3 =
                map (death_rate_update (replace_values [PosInf, NegInf] NaN)) df_filtered2;
              latest = series_max (map date df_filtered3)
          in Inr \<lparr>df = df1, df_filtered = df_filtered3, latest_date = latest,
                   df_latest = filter (\<lambda>r. date_eq (date r) latest) df_filtered3\<rparr>))"

text \<open>
  Lines 79-83 work row by row. This is what they make of one row of the filtered copy
  (lemma \<open>cell_clean_rows\<close> proves it from the cell).
\<close>

definition derived_row :: "rounding \<Rightarrow> row \<Rightarrow> frow" where
  "derived_row rnd r =
     \<lparr>location = location r, iso_code = iso_code r, date = date r,
      total_cases = fillna (Num 0) (total_cases r),
      new_cases = fillna (Num 0) (new_cases r),
      total_deaths = fillna (Num 0) (total_deaths r),
      new_deaths = fillna (Num 0) (new_deaths r),
      total_vaccinations = fillna (Num 0) (total_vaccinations r),
      people_vaccinated = fillna (Num 0) (people_vaccinated r),
      population = fillna (Num 0) (population r),
      total_cases_per_million = total_cases_per_million r,
      other_columns = other_columns r,
      death_rate =
        replace_values [PosInf, NegInf] NaN
          (fdiv rnd (fillna (Num 0) (total_deaths r)) (fillna (Num 0) (total_cases r)))\<rparr>"

text \<open>
  The vaccination cell (lines 208-209): \<^verbatim>\<open>df_latest\<close> with its new column, and the frame
  handed to \<^verbatim>\<open>sns.barplot\<close>.
\<close>

definition cell_vaccination :: "rounding \<Rightarrow> frow list \<Rightarrow> vrow list \<times> vrow list" where
  "cell_vaccination rnd latest_rows =
     (let df_latest' =
            map (\<lambda>r. frow.extend r
                   \<lparr>pct_vaccinated =
                      fmul rnd (fdiv rnd (people_vaccinated r) (population r)) (Num 100)\<rparr>)
              latest_rows
      in (df_latest', sort_values_desc pct_vaccinated df_latest'))"

text \<open>The choropleth cell (line 227): \<^verbatim>\<open>df[df['date'] == latest_date]\<close>.\<close>

definition cell_choropleth :: "row list \<Rightarrow> datetime64 \<Rightarrow> row list" where
  "cell_choropleth table latest = filter (\<lambda>r. date_eq (date r) latest) table"

text \<open>What a complete run leaves bound, and what it printed.\<close>

record notebook =
  printed :: "printout list"
  full_table :: "row list"
  filtered_table :: "frow list"
  snapshot_date :: datetime64
  latest_snapshot :: "vrow list"
  barplot_data :: "vrow list"
  df_global_latest :: "row list"

text \<open>
  The cells in order. An exception ends the run: the result is then what was printed up
  to it and the exception raised. Every cell after the first reads the name \<^verbatim>\<open>df\<close>.
\<close>

definition run_notebook ::
  "rounding \<Rightarrow> (string \<Rightarrow> datetime64 option) \<Rightarrow> row list option \<Rightarrow>
     (printout list \<times> error) + notebook" where
  "run_notebook rnd parse file =
     (let (out1, df_var) = cell_load file;
          (out2, raised) = cell_explore df_var
      in case raised of
           Some e \<Rightarrow> Inl (out1 @ out2, e)
         | None \<Rightarrow>
            (case df_var of
               None \<Rightarrow> Inl (out1 @ out2, NameError ''df'')
             | Some table \<Rightarrow>
                (case cell_clean rnd parse table of
                   Inl e \<Rightarrow> Inl (out1 @ out2, e)
                 | Inr c \<Rightarrow>
                    (let (df_latest', bars) = cell_vaccination rnd (df_latest c)
                     in Inr \<lparr>printed =
                               out1 @ out2 @ [LatestDate (length countries) (latest_date c)],
                             full_table = df c,
                             filtered_table = df_filtered c,
                             snapshot_date = latest_date c,
                             latest_snapshot = df_latest',
                             barplot_data = bars,
                             df_global_latest = cell_choropleth (df c) (latest_date c)\<rparr>))))"

subsection \<open>Sample inputs\<close>

text \<open>
  A date parser for the examples: the ISO dates \<^verbatim>\<open>YYYY-MM-DD\<close> of the OWID file, the
  timestamp of a date being the number \<open>yyyymmdd\<close>. Anything else is refused.
\<close>

definition number :: "string \<Rightarrow> nat option" where
  "number s =
     (if s \<noteq> [] \<and> list_all (\<lambda>ch. 48 \<le> (of_char ch :: nat) \<and> (of_char ch :: nat) \<le> 57) s
      then Some (foldl (\<lambda>a ch. 10 * a + (of_char ch - 48)) 0 s) else None)"

definition iso_date :: "string \<Rightarrow> datetime64 option" where
  "iso_date s =
     (if length s = 10 \<and> s ! 4 = CHR ''-'' \<and> s ! 7 = CHR ''-'' then
        (case (number (take 4 s), number (take 2 (drop 5 s)), number (drop 8 s)) of
           (Some y, Some m, Some d) \<Rightarrow>
             if 1 \<le> m \<and> m \<le> 12 \<and> 1 \<le> d \<and> d \<le> 31
             then Some (Stamp (int (y * 10000 + m * 100 + d))) else None
         | _ \<Rightarrow> None)
      else None)"

text \<open>
  A rounding for the examples. A real that is a \<^verbatim>\<open>float64\<close> is returned as it is, and every
  quotient and product of the examples is one; a real at or beyond the overflow threshold
  \<open>2^1024 - 2^970\<close> becomes an infinity. (Between two neighbouring \<^verbatim>\<open>float64\<close> values
  IEEE 754 goes to the nearer one, which no example needs.)
\<close>

definition round_sample :: rounding where
  "round_sample x =
     (if 2 ^ 1024 - 2 ^ 970 \<le> \<bar>x\<bar> then (if 0 < x then PosInf else NegInf) else Num x)"

text \<open>
  A row of the file with location, date, total cases, total deaths, people vaccinated and
  population given, and every other entry missing.
\<close>

definition csv_row ::
  "string \<Rightarrow> string \<Rightarrow> float64 \<Rightarrow> float64 \<Rightarrow> float64 \<Rightarrow> float64 \<Rightarrow> row" where
  "csv_row loc day cases deaths vaccinated pop =
     \<lparr>location = Some loc, iso_code = None, date = DateText day, total_cases = cases,
      new_cases = NaN, total_deaths = deaths, new_deaths = NaN, total_vaccinations = NaN,
      people_vaccinated = vaccinated, population = pop, total_cases_per_million = NaN,
      other_columns = [(''stringency_index'', NaN)]\<rparr>"

text \<open>
  Five records: Brazil on two days, Kenya with no cases and no population entry, the
  United Kingdom with no vaccination entry, and France, outside the configured
  countries, one day later than the rest.
\<close>

definition sample_csv :: "row list" where
  "sample_csv =
     [csv_row ''Brazil'' ''2021-03-31'' (Num 90) (Num 45) (Num 50) (Num 200),
      csv_row ''Brazil'' ''2021-04-01'' (Num 100) (Num 25) (Num 50) (Num 200),
      csv_row ''Kenya'' ''2021-04-01'' (Num 0) (Num 0) (Num 50) NaN,
      csv_row ''United Kingdom'' ''2021-04-01'' (Num 40) NaN NaN (Num 67),
      csv_row ''France'' ''2021-04-02'' NaN NaN NaN (Num 65)]"

text \<open>A file whose only record is outside the configured countries.\<close>

definition france_csv :: "row list" where
  "france_csv = [csv_row ''France'' ''2021-04-02'' (Num 7) NaN NaN (Num 65)]"

text \<open>
  A file with finite entries whose quotient overflows: \<open>2^1023\<close> (about \<open>8.99e307\<close>) total
  deaths over \<open>0.5\<close> total cases.
\<close>

definition overflow_csv :: "row list" where
  "overflow_csv =
     [csv_row ''India'' ''2021-04-01'' (Num (1 / 2)) (Num (2 ^ 1023)) NaN (Num 1000)]"

subsection \<open>What the cells compute on the sample inputs\<close>

definition dated_row ::
  "string \<Rightarrow> int \<Rightarrow> float64 \<Rightarrow> float64 \<Rightarrow> float64 \<Rightarrow> float64 \<Rightarrow> row" where
  "dated_row loc day cases deaths vaccinated pop =
     \<lparr>location = Some loc, iso_code = None, date = DateTime (Stamp day), total_cases = cases,
      new_cases = NaN, total_deaths = deaths, new_deaths = NaN, total_vaccinations = NaN,
      people_vaccinated = vaccinated, population = pop, total_cases_per_million = NaN,
      other_columns = [(''stringency_index'', NaN)]\<rparr>"

definition cleaned_row ::
  "string \<Rightarrow> int \<Rightarrow> float64 \<Rightarrow> float64 \<Rightarrow> float64 \<Rightarrow> float64 \<Rightarrow> float64 \<Rightarrow> frow" where
  "cleaned_row loc day cases deaths vaccinated pop rate =
     \<lparr>location = Some loc, iso_code = None, date = DateTime (Stamp day), total_cases = cases,
      new_cases = Num 0, total_deaths = deaths, new_deaths = Num 0,
      total_vaccinations = Num 0, people_vaccinated = vaccinated, population = pop,
      total_cases_per_million = NaN, other_columns = [(''stringency_index'', NaN)],
      death_rate = rate\<rparr>"

definition ranked_row ::
  "string \<Rightarrow> int \<Rightarrow> float64 \<Rightarrow> float64 \<Rightarrow> float64 \<Rightarrow> float64 \<Rightarrow> float64 \<Rightarrow> float64 \<Rightarrow> vrow" where
  "ranked_row loc day cases deaths vaccinated pop rate pct =
     \<lparr>location = Some loc, iso_code = None, date = DateTime (Stamp day), total_cases = cases,
      new_cases = Num 0, total_deaths = deaths, new_deaths = Num 0,
      total_vaccinations = Num 0, people_vaccinated = vaccinated, population = pop,
      total_cases_per_million = NaN, other_columns = [(''stringency_index'', NaN)],
      death_rate = rate, pct_vaccinated = pct\<rparr>"

definition sample_cleaned :: cleaned where
  "sample_cleaned =
     \<lparr>df =
        [dated_row ''Brazil'' 20210331 (Num 90) (Num 45) (Num 50) (Num 200),
         dated_row ''Brazil'' 20210401 (Num 100) (Num 25) (Num 50) (Num 200),
         dated_row ''Kenya'' 20210401 (Num 0) (Num 0) (Num 50) NaN,
         dated_row ''United Kingdom'' 20210401 (Num 40) NaN NaN (Num 67),
         dated_row ''France'' 20210402 NaN NaN NaN (Num 65)],
      df_filtered =
        [cleaned_row ''Brazil'' 20210331 (Num 90) (Num 45) (Num 50) (Num 200) (Num (1 / 2)),
         cleaned_row ''Brazil'' 20210401 (Num 100) (Num 25) (Num 50) (Num 200) (Num (1 / 4)),
         cleaned_row ''Kenya'' 20210401 (Num 0) (Num 0) (Num 50) (Num 0) NaN,
         cleaned_row ''United Kingdom'' 20210401 (Num 40) (Num 0) (Num 0) (Num 67) (Num 0)],
      latest_date = Stamp 20210401,
      df_latest =
        [cleaned_row ''Brazil'' 20210401 (Num 100) (Num 25) (Num 50) (Num 200) (Num (1 / 4)),
         cleaned_row ''Kenya'' 20210401 (Num 0) (Num 0) (Num 50) (Num 0) NaN,
         cleaned_row ''United Kingdom'' 20210401 (Num 40) (Num 0) (Num 0) (Num 67) (Num 0)]\<rparr>"

definition sample_printed :: "printout list" where
  "sample_printed =
     [Text ''Data loaded successfully!'', Shape 5,
      Text [], Text ''=== Dataset Info ==='', Report ''df.info()'',
      Text [], Text ''=== First 5 Rows ==='', Report ''df.head()'',
      Text [], Text ''=== Missing Values ==='', Report ''df.isnull().sum()'',
      LatestDate 6 (Stamp 20210401)]"

definition sample_notebook :: notebook where
  "sample_notebook =
     \<lparr>printed = sample_printed,
      full_table = df sample_cleaned,
      filtered_table = df_filtered sample_cleaned,
      snapshot_date = Stamp 20210401,
      latest_snapshot =
        [ranked_row ''Brazil'' 20210401 (Num 100) (Num 25) (Num 50) (Num 200) (Num (1 / 4))
           (Num 25),
         ranked_row ''Kenya'' 20210401 (Num 0) (Num 0) (Num 50) (Num 0) NaN PosInf,
         ranked_row ''United Kingdom'' 20210401 (Num 40) (Num 0) (Num 0) (Num 67) (Num 0)
           (Num 0)],
      barplot_data =
        [ranked_row ''Kenya'' 20210401 (Num 0) (Num 0) (Num 50) (Num 0) NaN PosInf,
         ranked_row ''Brazil'' 20210401 (Num 100) (Num 25) (Num 50) (Num 200) (Num (1 / 4))
           (Num 25),
         ranked_row ''United Kingdom'' 20210401 (Num 40) (Num 0) (Num 0) (Num 67) (Num 0)
           (Num 0)],
      df_global_latest =
        [dated_row ''Brazil'' 20210401 (Num 100) (Num 25) (Num 50) (Num 200),
         dated_row ''Kenya'' 20210401 (Num 0) (Num 0) (Num 50) NaN,
         dated_row ''United Kingdom'' 20210401 (Num 40) NaN NaN (Num 67)]\<rparr>"

definition overflow_cleaned :: cleaned where
  "overflow_cleaned =
     \<lparr>df = [dated_row ''India'' 20210401 (Num (1 / 2)) (Num (2 ^ 1023)) NaN (Num 1000)],
      df_filtered =
        [cleaned_row ''India'' 20210401 (Num (1 / 2)) (Num (2 ^ 1023)) (Num 0) (Num 1000) NaN],
      latest_date = Stamp 20210401,
      df_latest =
        [cleaned_row ''India'' 20210401 (Num (1 / 2)) (Num (2 ^ 1023)) (Num 0) (Num 1000) NaN]\<rparr>"

definition france_notebook :: notebook where
  "france_notebook =
     \<lparr>printed =
        [Text ''Data loaded successfully!'', Shape 1,
         Text [], Text ''=== Dataset Info ==='', Report ''df.info()'',
         Text [], Text ''=== First 5 Rows ==='', Report ''df.head()'',
         Text [], Text ''=== Missing Values ==='', Report ''df.isnull().sum()'',
         LatestDate 6 NaT],
      full_table = [dated_row ''France'' 20210402 (Num 7) NaN NaN (Num 65)],
      filtered_table = [], snapshot_date = NaT, latest_snapshot = [], barplot_data = [],
      df_global_latest = []\<rparr>"

section \<open>Properties of the operations\<close>

subsection \<open>Cells and columns\<close>

lemma replace_infinities:
  "replace_values [PosInf, NegInf] NaN x = (if is_inf x then NaN else x)"
  by (simp add: replace_values_def is_inf_def)

lemma fdiv_by_zero:
  "a \<noteq> NaN \<Longrightarrow> is_zero b \<Longrightarrow> fdiv rnd a b = NaN \<or> is_inf (fdiv rnd a b)"
  by (auto simp: fdiv_def is_zero_def is_inf_def signed_inf_def)

lemma fdiv_finite:
  "x \<noteq> 0 \<Longrightarrow> y \<noteq> 0 \<Longrightarrow> fdiv rnd (Num y) (Num x) = rnd (y / x)"
  by (simp add: fdiv_def is_zero_def is_inf_def)

lemma zero_share:
  assumes "is_zero a" and "p \<noteq> 0"
  shows "is_zero (fmul rnd (fdiv rnd a (Num p)) (Num 100))"
proof -
  from assms have "is_zero (fdiv rnd a (Num p))"
    by (auto simp: fdiv_def is_zero_def is_inf_def signed_zero_def)
  then show ?thesis
    by (auto simp: fmul_def is_zero_def is_inf_def signed_zero_def)
qed

lemma fill_key_columns:
  "fold (\<lambda>upd. upd (fillna v)) key_columns r =
     r\<lparr>total_cases := fillna v (total_cases r), new_cases := fillna v (new_cases r),
       total_deaths := fillna v (total_deaths r), new_deaths := fillna v (new_deaths r),
       total_vaccinations := fillna v (total_vaccinations r),
       people_vaccinated := fillna v (people_vaccinated r),
       population := fillna v (population r)\<rparr>"
  by (simp add: key_columns_def)

lemma isin_iff: "isin x vs \<longleftrightarrow> (\<exists>name\<in>set vs. x = Some name)"
  by (cases x) (auto simp: isin_def)

lemma date_eq_iff: "date_eq d l \<longleftrightarrow> (\<exists>t. d = DateTime (Stamp t) \<and> l = Stamp t)"
  by (cases "(d, l)" rule: date_eq.cases) auto

lemma date_eq_NaT: "\<not> date_eq d NaT"
  by (simp add: date_eq_iff)

lemma series_max_attained: "series_max cs = Stamp t \<Longrightarrow> DateTime (Stamp t) \<in> set cs"
proof (induction cs arbitrary: t rule: series_max.induct)
  case 1
  then show ?case by simp
next
  case (2 u cs)
  then show ?case by (auto split: datetime64.splits simp: max_def split: if_splits)
qed auto

lemma series_max_upper:
  "DateTime (Stamp u) \<in> set cs \<Longrightarrow> \<exists>t. series_max cs = Stamp t \<and> u \<le> t"
proof (induction cs rule: series_max.induct)
  case 1
  then show ?case by simp
next
  case (2 v cs)
  then show ?case by (fastforce split: datetime64.splits)
qed auto

lemma to_datetime_cell_DateTime:
  "to_datetime_cell parse d = Inr d' \<Longrightarrow> \<exists>t. d' = DateTime t"
  by (cases d) (auto split: option.splits)

lemma to_datetime_rows:
  "to_datetime parse table = Inr df1 \<Longrightarrow>
     list_all2 (\<lambda>s r. r = s\<lparr>date := date r\<rparr> \<and> to_datetime_cell parse (date s) = Inr (date r))
       table df1"
proof (induction table arbitrary: df1)
  case Nil
  then show ?case by simp
next
  case (Cons s table)
  then show ?case by (auto split: sum.splits)
qed

lemma to_datetime_locations:
  "to_datetime parse table = Inr df1 \<Longrightarrow> map location df1 = map location table"
  by (induction table arbitrary: df1) (auto split: sum.splits)

lemma mset_insert_desc: "mset (insert_desc key x ys) = add_mset x (mset ys)"
  by (induction ys) auto

lemma mset_sort_values_desc: "mset (sort_values_desc key rows) = mset rows"
  unfolding sort_values_desc_def by (induction rows) (auto simp: mset_insert_desc)

lemma distinct_map_count:
  "distinct (map f xs) \<Longrightarrow> length (filter (\<lambda>x. f x = v) xs) \<le> 1"
proof (induction xs)
  case Nil
  then show ?case by simp
next
  case (Cons x xs)
  show ?case
  proof (cases "f x = v")
    case True
    from Cons.prems have "f x \<notin> f ` set xs" by simp
    with True have "\<forall>y\<in>set xs. f y \<noteq> v" by (auto simp: image_iff)
    then have "filter (\<lambda>x. f x = v) xs = []" by (simp add: filter_empty_conv)
    with True show ?thesis by simp
  next
    case False
    with Cons show ?thesis by simp
  qed
qed

lemma distinct_same_date:
  "distinct (map (\<lambda>r. (f r, g r)) xs) \<Longrightarrow> \<forall>x\<in>set xs. g x = d \<Longrightarrow> distinct (map f xs)"
proof (induction xs)
  case Nil
  then show ?case by simp
next
  case (Cons x xs)
  from Cons.prems have "(f x, g x) \<notin> (\<lambda>r. (f r, g r)) ` set xs" by simp
  with Cons.prems(2) have "f x \<notin> f ` set xs" by (auto simp: image_iff)
  with Cons show ?case by simp
qed

subsection \<open>The cleaning cell\<close>

lemma derive_one:
  "death_rate_update (replace_values [PosInf, NegInf] NaN)
     (row.extend (fold (\<lambda>upd. upd (fillna (Num 0))) key_columns r)
        \<lparr>death_rate =
           fdiv rnd (total_deaths (fold (\<lambda>upd. upd (fillna (Num 0))) key_columns r))
             (total_cases (fold (\<lambda>upd. upd (fillna (Num 0))) key_columns r))\<rparr>) =
   derived_row rnd r"
  by (cases r) (simp add: fill_key_columns derived_row_def row.defs)

lemma derive_all:
  "map (death_rate_update (replace_values [PosInf, NegInf] NaN))
     (map (\<lambda>r. row.extend r \<lparr>death_rate = fdiv rnd (total_deaths r) (total_cases r)\<rparr>)
        (fillna_columns key_columns (Num 0) rows)) =
   map (derived_row rnd) rows"
  by (simp add: fillna_columns_def derive_one o_def)

lemma cell_clean_unfold:
  "cell_clean rnd parse table =
     (case to_datetime parse table of
        Inl e \<Rightarrow> Inl e
      | Inr df1 \<Rightarrow>
          Inr \<lparr>df = df1,
               df_filtered = map (derived_row rnd) (filter (\<lambda>r. isin (location r) countries) df1),
               latest_date =
                 series_max
                   (map date (map (derived_row rnd) (filter (\<lambda>r. isin (location r) countries) df1))),
               df_latest =
                 filter
                   (\<lambda>r. date_eq (date r)
                      (series_max
                         (map date
                            (map (derived_row rnd)
                               (filter (\<lambda>r. isin (location r) countries) df1)))))
                   (map (derived_row rnd) (filter (\<lambda>r. isin (location r) countries) df1))\<rparr>)"
  unfolding cell_clean_def Let_def derive_all ..

lemma cell_clean_rows:
  assumes "cell_clean rnd parse table = Inr c"
  shows "to_datetime parse table = Inr (df c)"
    and "df_filtered c = map (derived_row rnd) (filter (\<lambda>r. isin (location r) countries) (df c))"
    and "latest_date c = series_max (map date (df_filtered c))"
    and "df_latest c = filter (\<lambda>r. date_eq (date r) (latest_date c)) (df_filtered c)"
  using assms unfolding cell_clean_unfold by (auto split: sum.splits)

lemma cell_clean_total:
  "to_datetime parse table = Inr df1 \<Longrightarrow> \<exists>c. cell_clean rnd parse table = Inr c"
  by (simp add: cell_clean_def Let_def)

lemma cell_clean_fails:
  "cell_clean rnd parse table = Inl e \<Longrightarrow> to_datetime parse table = Inl e"
  by (simp add: cell_clean_def Let_def split: sum.splits)

lemma derived_row_fields:
  "location (derived_row rnd s) = location s"
  "iso_code (derived_row rnd s) = iso_code s"
  "date (derived_row rnd s) = date s"
  "total_cases (derived_row rnd s) = (if total_cases s = NaN then Num 0 else total_cases s)"
  "new_cases (derived_row rnd s) = (if new_cases s = NaN then Num 0 else new_cases s)"
  "total_deaths (derived_row rnd s) = (if total_deaths s = NaN then Num 0 else total_deaths s)"
  "new_deaths (derived_row rnd s) = (if new_deaths s = NaN then Num 0 else new_deaths s)"
  "total_vaccinations (derived_row rnd s) =
     (if total_vaccinations s = NaN then Num 0 else total_vaccinations s)"
  "people_vaccinated (derived_row rnd s) =
     (if people_vaccinated s = NaN then Num 0 else people_vaccinated s)"
  "population (derived_row rnd s) = (if population s = NaN then Num 0 else population s)"
  "total_cases_per_million (derived_row rnd s) = total_cases_per_million s"
  "other_columns (derived_row rnd s) = other_columns s"
  by (simp_all add: derived_row_def fillna_def)

lemma derived_row_death_rate:
  "death_rate (derived_row rnd s) =
     replace_values [PosInf, NegInf] NaN
       (fdiv rnd (total_deaths (derived_row rnd s)) (total_cases (derived_row rnd s)))"
  by (simp add: derived_row_def)

lemma filtered_row_origin:
  assumes "cell_clean rnd parse table = Inr c" and "r \<in> set (df_filtered c)"
  obtains s where "s \<in> set (df c)" and "isin (location s) countries"
    and "r = derived_row rnd s"
  using assms cell_clean_rows(2) [OF assms(1)] by auto

lemma filtered_rows_related:
  assumes "cell_clean rnd parse table = Inr c"
  shows "list_all2 (\<lambda>s r. r = derived_row rnd s)
           (filter (\<lambda>r. isin (location r) countries) (df c)) (df_filtered c)"
  unfolding cell_clean_rows(2) [OF assms] by (simp add: list_all2_map2 list.rel_refl)

lemma filtered_row_death_rate:
  assumes "cell_clean rnd parse table = Inr c" and "r \<in> set (df_filtered c)"
  shows "death_rate r =
           replace_values [PosInf, NegInf] NaN (fdiv rnd (total_deaths r) (total_cases r))"
    and "total_deaths r \<noteq> NaN" and "total_cases r \<noteq> NaN"
proof -
  from assms obtain s where r: "r = derived_row rnd s" by (rule filtered_row_origin)
  show "death_rate r =
           replace_values [PosInf, NegInf] NaN (fdiv rnd (total_deaths r) (total_cases r))"
    unfolding r by (rule derived_row_death_rate)
  show "total_deaths r \<noteq> NaN" and "total_cases r \<noteq> NaN"
    unfolding r by (simp_all add: derived_row_fields)
qed

subsection \<open>The vaccination cell and the whole run\<close>

lemma add_column_fields:
  fixes r :: frow
  shows "location (frow.extend r x) = location r"
    and "date (frow.extend r x) = date r"
    and "people_vaccinated (frow.extend r x) = people_vaccinated r"
    and "population (frow.extend r x) = population r"
    and "pct_vaccinated (frow.extend r \<lparr>pct_vaccinated = p\<rparr>) = p"
    and "frow.truncate (frow.extend r \<lparr>pct_vaccinated = p\<rparr>) = r"
  by (cases r; simp add: frow.defs)+

lemma insert_desc_map:
  "(\<And>x. key (f x) = key x) \<Longrightarrow>
     insert_desc key (f x) (map f ys) = map f (insert_desc key x ys)"
  by (induction ys) simp_all

lemma sort_values_desc_map:
  "(\<And>x. key (f x) = key x) \<Longrightarrow>
     sort_values_desc key (map f xs) = map f (sort_values_desc key xs)"
  unfolding sort_values_desc_def by (induction xs) (simp_all add: insert_desc_map)

lemma add_column_death_rate:
  fixes r :: frow
  shows "frow.extend (death_rate_update g r) x = death_rate_update g (frow.extend r x)"
    and "people_vaccinated (death_rate_update g r) = people_vaccinated r"
    and "population (death_rate_update g r) = population r"
  by (cases r; simp add: frow.defs)+

lemma cell_vaccination_death_rate:
  "cell_vaccination rnd (map (death_rate_update g) rows) =
     (map (death_rate_update g) (fst (cell_vaccination rnd rows)),
      map (death_rate_update g) (snd (cell_vaccination rnd rows)))"
proof -
  let ?add = "\<lambda>r :: frow. frow.extend r
    \<lparr>pct_vaccinated = fmul rnd (fdiv rnd (people_vaccinated r) (population r)) (Num 100)\<rparr>"
  have key: "pct_vaccinated (death_rate_update g v) = pct_vaccinated v" for v :: vrow
    by simp
  have swap: "map ?add (map (death_rate_update g) rows) =
      map (death_rate_update g) (map ?add rows)"
    by (simp add: add_column_death_rate)
  have sorted: "sort_values_desc pct_vaccinated (map (death_rate_update g) (map ?add rows)) =
      map (death_rate_update g) (sort_values_desc pct_vaccinated (map ?add rows))"
    by (rule sort_values_desc_map) (rule key)
  show ?thesis
    unfolding cell_vaccination_def Let_def swap sorted by (simp only: fst_conv snd_conv)
qed

lemma cell_vaccination_rows:
  "fst (cell_vaccination rnd rows) =
     map (\<lambda>r. frow.extend r
            \<lparr>pct_vaccinated = fmul rnd (fdiv rnd (people_vaccinated r) (population r)) (Num 100)\<rparr>)
       rows"
  "mset (snd (cell_vaccination rnd rows)) = mset (fst (cell_vaccination rnd rows))"
  by (simp_all add: cell_vaccination_def Let_def mset_sort_values_desc)

lemma run_notebook_absent:
  "run_notebook rnd parse None =
     Inl ([Text ''Error: File not found. Please download the dataset first.'',
           Text ''Download from: https://ourworldindata.org/covid-cases'',
           Text [], Text ''=== Dataset Info ===''], NameError ''df'')"
  by (simp add: run_notebook_def cell_load_def cell_explore_def)

lemma run_notebook_loaded:
  "run_notebook rnd parse (Some table) =
     (case cell_clean rnd parse table of
        Inl e \<Rightarrow> Inl (fst (cell_load (Some table)) @ fst (cell_explore (Some table)), e)
      | Inr c \<Rightarrow>
          Inr \<lparr>printed =
                 fst (cell_load (Some table)) @ fst (cell_explore (Some table)) @
                 [LatestDate (length countries) (latest_date c)],
               full_table = df c,
               filtered_table = df_filtered c,
               snapshot_date = latest_date c,
               latest_snapshot = fst (cell_vaccination rnd (df_latest c)),
               barplot_data = snd (cell_vaccination rnd (df_latest c)),
               df_global_latest = cell_choropleth (df c) (latest_date c)\<rparr>)"
  by (simp add: run_notebook_def cell_load_def cell_explore_def split: sum.splits prod.splits)

lemma run_notebook_Inr:
  assumes "run_notebook rnd parse (Some table) = Inr nb"
  obtains c where "cell_clean rnd parse table = Inr c"
    and "full_table nb = df c" and "filtered_table nb = df_filtered c"
    and "snapshot_date nb = latest_date c"
    and "latest_snapshot nb = fst (cell_vaccination rnd (df_latest c))"
    and "barplot_data nb = snd (cell_vaccination rnd (df_latest c))"
    and "df_global_latest nb = cell_choropleth (df c) (latest_date c)"
  using assms unfolding run_notebook_loaded by (auto split: sum.splits)

lemma run_notebook_clean:
  assumes "cell_clean rnd parse table = Inr c"
  shows "\<exists>nb. run_notebook rnd parse (Some table) = Inr nb \<and>
           full_table nb = df c \<and> filtered_table nb = df_filtered c \<and>
           snapshot_date nb = latest_date c \<and>
           latest_snapshot nb = fst (cell_vaccination rnd (df_latest c)) \<and>
           barplot_data nb = snd (cell_vaccination rnd (df_latest c)) \<and>
           df_global_latest nb = cell_choropleth (df c) (latest_date c)"
  unfolding run_notebook_loaded using assms by simp

lemma run_notebook_printed:
  assumes "run_notebook rnd parse (Some table) = Inr nb"
  shows "last (printed nb) = LatestDate (length countries) (snapshot_date nb)"
  using assms unfolding run_notebook_loaded by (auto split: sum.splits)

subsection \<open>The sample inputs, evaluated\<close>

lemma iso_date_samples:
  "iso_date ''2021-03-31'' = Some (Stamp 20210331)"
  "iso_date ''2021-04-01'' = Some (Stamp 20210401)"
  "iso_date ''2021-04-02'' = Some (Stamp 20210402)"
  by (simp_all add: iso_date_def number_def)

lemma sample_dates: "to_datetime iso_date sample_csv = Inr (df sample_cleaned)"
  by (simp add: sample_csv_def csv_row_def iso_date_samples sample_cleaned_def dated_row_def)

lemmas float_defs =
  fdiv_def fmul_def is_zero_def is_inf_def signed_zero_def signed_inf_def round_sample_def

lemma sample_clean: "cell_clean round_sample iso_date sample_csv = Inr sample_cleaned"
  unfolding cell_clean_unfold sample_dates
  by (simp add: sample_cleaned_def dated_row_def cleaned_row_def derived_row_def isin_def
      countries_def fillna_def replace_values_def float_defs)

lemma sample_run: "run_notebook round_sample iso_date (Some sample_csv) = Inr sample_notebook"
  unfolding run_notebook_loaded sample_clean
  by (simp add: sample_notebook_def sample_printed_def cell_load_def cell_explore_def
      countries_def sample_cleaned_def cell_vaccination_def cell_choropleth_def
      sort_values_desc_def cleaned_row_def ranked_row_def dated_row_def frow.defs sample_csv_def
      float_defs)

lemma overflow_dates: "to_datetime iso_date overflow_csv = Inr (df overflow_cleaned)"
  by (simp add: overflow_csv_def csv_row_def iso_date_samples overflow_cleaned_def
      dated_row_def)

lemma overflow_quotient: "fdiv round_sample (Num (2 ^ 1023)) (Num (1 / 2)) = PosInf"
  by (simp add: float_defs)

lemma overflow_clean: "cell_clean round_sample iso_date overflow_csv = Inr overflow_cleaned"
  unfolding cell_clean_unfold overflow_dates
  by (simp add: overflow_cleaned_def dated_row_def cleaned_row_def derived_row_def isin_def
      countries_def fillna_def replace_values_def float_defs)

lemma france_dates: "to_datetime iso_date france_csv = Inr (full_table france_notebook)"
  by (simp add: france_csv_def csv_row_def iso_date_samples france_notebook_def dated_row_def)

lemma france_clean:
  "cell_clean round_sample iso_date france_csv =
     Inr \<lparr>df = full_table france_notebook, df_filtered = [], latest_date = NaT,
          df_latest = []\<rparr>"
  unfolding cell_clean_unfold france_dates
  by (simp add: france_notebook_def dated_row_def isin_def countries_def)

lemma france_run: "run_notebook round_sample iso_date (Some france_csv) = Inr france_notebook"
  unfolding run_notebook_loaded france_clean
  by (simp add: france_notebook_def cell_load_def cell_explore_def countries_def
      cell_vaccination_def cell_choropleth_def sort_values_desc_def france_csv_def dated_row_def)

section \<open>The specification, claim by claim\<close>

subsection \<open>The death rate\<close>

text \<open>
  C1, as stated, fails: a row with 0.5 total cases and \<open>2^1023\<close> total deaths, both finite,
  has a quotient that overflows to \<open>+inf\<close> on line 82, and line 83 records its death rate
  as "no value", not as the quotient.
\<close>

theorem death_rate_counterexample:
  "cell_clean round_sample iso_date overflow_csv = Inr overflow_cleaned \<and>
   map total_cases (df_filtered overflow_cleaned) = [Num (1 / 2)] \<and>
   map total_deaths (df_filtered overflow_cleaned) = [Num (2 ^ 1023)] \<and>
   fdiv round_sample (Num (2 ^ 1023)) (Num (1 / 2)) = PosInf \<and>
   map death_rate (df_filtered overflow_cleaned) = [NaN]"
  using overflow_clean overflow_quotient by (simp add: overflow_cleaned_def cleaned_row_def)

text \<open>
  C1, amended. In every row of the filtered table the death rate is the floating-point
  quotient total_deaths / total_cases of line 82, unless that quotient is infinite, and
  then it is "no value"; for finite nonzero entries the quotient is the rounded real
  quotient. When total_cases is 0 the death rate is "no value". The death rate is never
  infinite. And no later computation reads the column, so a NaN in it surfaces nowhere:
  whatever the column holds, the latest date is the same, and the vaccination cell returns
  the same frames but for that column.
\<close>

theorem death_rate_derivation:
  assumes "cell_clean rnd parse table = Inr c"
  shows "(\<forall>r\<in>set (df_filtered c).
            death_rate r =
              (if is_inf (fdiv rnd (total_deaths r) (total_cases r)) then NaN
               else fdiv rnd (total_deaths r) (total_cases r)) \<and>
            (\<forall>x y. total_cases r = Num x \<and> 0 < x \<and> total_deaths r = Num y \<and> y \<noteq> 0 \<longrightarrow>
               death_rate r = (if is_inf (rnd (y / x)) then NaN else rnd (y / x))) \<and>
            (is_zero (total_cases r) \<longrightarrow> death_rate r = NaN) \<and>
            \<not> is_inf (death_rate r)) \<and>
         (\<forall>g. series_max (map date (map (death_rate_update g) (df_filtered c))) =
                latest_date c \<and>
              cell_vaccination rnd (map (death_rate_update g) (df_latest c)) =
                (map (death_rate_update g) (fst (cell_vaccination rnd (df_latest c))),
                 map (death_rate_update g) (snd (cell_vaccination rnd (df_latest c)))))"
proof (intro conjI ballI allI)
  fix r assume "r \<in> set (df_filtered c)"
  note dr = filtered_row_death_rate [OF assms this]
  show "death_rate r =
              (if is_inf (fdiv rnd (total_deaths r) (total_cases r)) then NaN
               else fdiv rnd (total_deaths r) (total_cases r))"
    unfolding dr(1) by (rule replace_infinities)
  then show "\<not> is_inf (death_rate r)"
    by (simp add: is_inf_def split: if_splits)
  show "is_zero (total_cases r) \<longrightarrow> death_rate r = NaN"
    unfolding dr(1) using fdiv_by_zero [OF dr(2), of "total_cases r" rnd]
    by (auto simp: replace_infinities)
  show "total_cases r = Num x \<and> 0 < x \<and> total_deaths r = Num y \<and> y \<noteq> 0 \<longrightarrow>
          death_rate r = (if is_inf (rnd (y / x)) then NaN else rnd (y / x))" for x y
    unfolding dr(1) by (auto simp: replace_infinities fdiv_finite)
next
  fix g
  show "series_max (map date (map (death_rate_update g) (df_filtered c))) = latest_date c"
    unfolding cell_clean_rows(3) [OF assms] by (simp add: o_def)
  show "cell_vaccination rnd (map (death_rate_update g) (df_latest c)) =
          (map (death_rate_update g) (fst (cell_vaccination rnd (df_latest c))),
           map (death_rate_update g) (snd (cell_vaccination rnd (df_latest c))))"
    by (rule cell_vaccination_death_rate)
qed

theorem death_rate_derivation_witness:
  "cell_clean round_sample iso_date sample_csv = Inr sample_cleaned \<and>
   map total_cases (df_filtered sample_cleaned) = [Num 90, Num 100, Num 0, Num 40] \<and>
   map total_deaths (df_filtered sample_cleaned) = [Num 45, Num 25, Num 0, Num 0] \<and>
   map death_rate (df_filtered sample_cleaned) =
     [round_sample (45 / 90), round_sample (25 / 100), NaN, Num 0] \<and>
   round_sample (45 / 90) = Num (1 / 2) \<and> round_sample (25 / 100) = Num (1 / 4) \<and>
   list_all (\<lambda>r. \<not> is_inf (death_rate r)) (df_filtered sample_cleaned) \<and>
   series_max (map date (map (death_rate_update (\<lambda>x. NaN)) (df_filtered sample_cleaned))) =
     latest_date sample_cleaned"
  using death_rate_derivation [OF sample_clean] sample_clean
  by (simp add: sample_cleaned_def cleaned_row_def float_defs)

subsection \<open>The vaccination ranking\<close>

text \<open>
  C2, as stated, fails. In the sample file Kenya has no population entry and the United
  Kingdom no people_vaccinated entry. Both rows are in the frame handed to the bar chart,
  the United Kingdom with the percentage 0 (and Kenya, its population filled with 0, with
  an infinite one).
\<close>

theorem vaccination_counterexample:
  "run_notebook round_sample iso_date (Some sample_csv) = Inr sample_notebook \<and>
   map location sample_csv =
     [Some ''Brazil'', Some ''Brazil'', Some ''Kenya'', Some ''United Kingdom'', Some ''France''] \<and>
   map population sample_csv = [Num 200, Num 200, NaN, Num 67, Num 65] \<and>
   map people_vaccinated sample_csv = [Num 50, Num 50, Num 50, NaN, NaN] \<and>
   map location (barplot_data sample_notebook) =
     [Some ''Kenya'', Some ''Brazil'', Some ''United Kingdom''] \<and>
   map population (barplot_data sample_notebook) = [Num 0, Num 200, Num 67] \<and>
   map people_vaccinated (barplot_data sample_notebook) = [Num 50, Num 50, Num 0] \<and>
   map pct_vaccinated (barplot_data sample_notebook) = [PosInf, Num 25, Num 0]"
  using sample_run
  by (simp add: sample_notebook_def sample_csv_def csv_row_def ranked_row_def)

text \<open>
  C2, amended. No row is excluded from the vaccination ranking. A missing
  people_vaccinated or population entry of a configured country is 0 in the filtered table;
  the snapshot is every row of the filtered table at the latest date; and the frame handed
  to the bar chart is the snapshot reordered. Where the population is finite and not 0,
  pct_vaccinated is people_vaccinated / population * 100 on those filled entries, so a row
  that lacked people_vaccinated is shown with a zero. (What the column holds where the
  population is 0 is not part of the statement.)
\<close>

theorem vaccination_ranking:
  assumes "run_notebook rnd parse file = Inr nb"
  shows "list_all2
           (\<lambda>s r. people_vaccinated r =
                    (if people_vaccinated s = NaN then Num 0 else people_vaccinated s) \<and>
                  population r = (if population s = NaN then Num 0 else population s))
           (filter (\<lambda>r. isin (location r) countries) (full_table nb)) (filtered_table nb) \<and>
         map frow.truncate (latest_snapshot nb) =
           filter (\<lambda>r. date_eq (date r) (snapshot_date nb)) (filtered_table nb) \<and>
         mset (barplot_data nb) = mset (latest_snapshot nb) \<and>
         (\<forall>v\<in>set (barplot_data nb).
            ((\<exists>p. population v = Num p \<and> p \<noteq> 0) \<longrightarrow>
               pct_vaccinated v =
                 fmul rnd (fdiv rnd (people_vaccinated v) (population v)) (Num 100)) \<and>
            (is_zero (people_vaccinated v) \<and> (\<exists>p. population v = Num p \<and> p \<noteq> 0) \<longrightarrow>
               is_zero (pct_vaccinated v)))"
proof -
  from assms obtain table where loaded: "file = Some table"
    by (cases "file") (simp_all add: run_notebook_absent)
  from assms [unfolded loaded] obtain c where c: "cell_clean rnd parse table = Inr c"
    and nb: "full_table nb = df c" "filtered_table nb = df_filtered c"
      "snapshot_date nb = latest_date c"
      "latest_snapshot nb = fst (cell_vaccination rnd (df_latest c))"
      "barplot_data nb = snd (cell_vaccination rnd (df_latest c))"
    by (rule run_notebook_Inr)
  note rows = cell_clean_rows [OF c]
  have filled: "list_all2
           (\<lambda>s r. people_vaccinated r =
                    (if people_vaccinated s = NaN then Num 0 else people_vaccinated s) \<and>
                  population r = (if population s = NaN then Num 0 else population s))
           (filter (\<lambda>r. isin (location r) countries) (full_table nb)) (filtered_table nb)"
    unfolding nb
    by (rule list_all2_mono [OF filtered_rows_related [OF c]]) (simp add: derived_row_fields)
  have snapshot: "map frow.truncate (latest_snapshot nb) =
           filter (\<lambda>r. date_eq (date r) (snapshot_date nb)) (filtered_table nb)"
    unfolding nb cell_vaccination_rows(1) rows(4) [symmetric]
    by (simp add: o_def add_column_fields)
  have same: "mset (barplot_data nb) = mset (latest_snapshot nb)"
    unfolding nb by (rule cell_vaccination_rows(2))
  have pct: "pct_vaccinated v =
      fmul rnd (fdiv rnd (people_vaccinated v) (population v)) (Num 100)"
    if "v \<in> set (barplot_data nb)" for v
  proof -
    from that have "v \<in> set (latest_snapshot nb)"
      using same by (metis set_mset_mset)
    then show ?thesis
      unfolding nb cell_vaccination_rows(1) by (auto simp: add_column_fields)
  qed
  have "\<forall>v\<in>set (barplot_data nb).
            ((\<exists>p. population v = Num p \<and> p \<noteq> 0) \<longrightarrow>
               pct_vaccinated v =
                 fmul rnd (fdiv rnd (people_vaccinated v) (population v)) (Num 100)) \<and>
            (is_zero (people_vaccinated v) \<and> (\<exists>p. population v = Num p \<and> p \<noteq> 0) \<longrightarrow>
               is_zero (pct_vaccinated v))"
  proof
    fix v assume v: "v \<in> set (barplot_data nb)"
    show "((\<exists>p. population v = Num p \<and> p \<noteq> 0) \<longrightarrow>
               pct_vaccinated v =
                 fmul rnd (fdiv rnd (people_vaccinated v) (population v)) (Num 100)) \<and>
            (is_zero (people_vaccinated v) \<and> (\<exists>p. population v = Num p \<and> p \<noteq> 0) \<longrightarrow>
               is_zero (pct_vaccinated v))"
      unfolding pct [OF v] by (auto simp: zero_share)
  qed
  with filled snapshot same show ?thesis by blast
qed

theorem vaccination_ranking_witness:
  "run_notebook round_sample iso_date (Some sample_csv) = Inr sample_notebook \<and>
   map location (latest_snapshot sample_notebook) =
     [Some ''Brazil'', Some ''Kenya'', Some ''United Kingdom''] \<and>
   mset (barplot_data sample_notebook) = mset (latest_snapshot sample_notebook) \<and>
   map location (barplot_data sample_notebook) =
     [Some ''Kenya'', Some ''Brazil'', Some ''United Kingdom''] \<and>
   map population (barplot_data sample_notebook) = [Num 0, Num 200, Num 67] \<and>
   map people_vaccinated (barplot_data sample_notebook) = [Num 50, Num 50, Num 0] \<and>
   pct_vaccinated (barplot_data sample_notebook ! 1) =
     fmul round_sample (fdiv round_sample (Num 50) (Num 200)) (Num 100) \<and>
   pct_vaccinated (barplot_data sample_notebook ! 1) = Num 25 \<and>
   is_zero (pct_vaccinated (barplot_data sample_notebook ! 2))"
  using vaccination_ranking [OF sample_run] sample_run
  by (simp add: sample_notebook_def ranked_row_def float_defs)

subsection \<open>The date of the global snapshot\<close>

text \<open>
  C3, as stated, fails: the sample file has a French record one day later than any record
  of a configured country; the global snapshot holds the rows of the earlier day, the
  latest date of the filtered table, and not those of the latest date of the full table.
\<close>

theorem global_snapshot_counterexample:
  "run_notebook round_sample iso_date (Some sample_csv) = Inr sample_notebook \<and>
   series_max (map date (full_table sample_notebook)) = Stamp 20210402 \<and>
   series_max (map date (filtered_table sample_notebook)) = Stamp 20210401 \<and>
   map date (df_global_latest sample_notebook) =
     [DateTime (Stamp 20210401), DateTime (Stamp 20210401), DateTime (Stamp 20210401)]"
  using sample_run
  by (simp add: sample_notebook_def sample_cleaned_def dated_row_def cleaned_row_def)

text \<open>
  C3, amended. The global snapshot is the rows of the full table whose date equals the one
  \<^verbatim>\<open>latest_date\<close> of the run, the latest date of the filtered table; the global and the
  country-scoped snapshot never differ in their date.
\<close>

theorem global_snapshot_date:
  assumes "run_notebook rnd parse file = Inr nb"
  shows "snapshot_date nb = series_max (map date (filtered_table nb)) \<and>
         df_global_latest nb =
           filter (\<lambda>r. date_eq (date r) (snapshot_date nb)) (full_table nb) \<and>
         (\<forall>r\<in>set (df_global_latest nb). date r = DateTime (snapshot_date nb)) \<and>
         (\<forall>r\<in>set (latest_snapshot nb). date r = DateTime (snapshot_date nb))"
proof -
  from assms obtain table where loaded: "file = Some table"
    by (cases "file") (simp_all add: run_notebook_absent)
  from assms [unfolded loaded] obtain c where c: "cell_clean rnd parse table = Inr c"
    and nb: "full_table nb = df c" "filtered_table nb = df_filtered c"
      "snapshot_date nb = latest_date c"
      "latest_snapshot nb = fst (cell_vaccination rnd (df_latest c))"
      "df_global_latest nb = cell_choropleth (df c) (latest_date c)"
    by (rule run_notebook_Inr)
  note rows = cell_clean_rows [OF c]
  have "\<forall>r\<in>set (fst (cell_vaccination rnd (df_latest c))). date r = DateTime (latest_date c)"
    unfolding rows(4) cell_vaccination_rows(1) by (auto simp: add_column_fields date_eq_iff)
  then show ?thesis
    unfolding nb by (auto simp: rows(3) cell_choropleth_def date_eq_iff)
qed

theorem global_snapshot_date_witness:
  "run_notebook round_sample iso_date (Some sample_csv) = Inr sample_notebook \<and>
   snapshot_date sample_notebook = Stamp 20210401 \<and>
   map location (df_global_latest sample_notebook) =
     [Some ''Brazil'', Some ''Kenya'', Some ''United Kingdom''] \<and>
   list_all (\<lambda>r. date r = DateTime (Stamp 20210401)) (df_global_latest sample_notebook) \<and>
   list_all (\<lambda>r. date r = DateTime (Stamp 20210401)) (latest_snapshot sample_notebook)"
  using global_snapshot_date [OF sample_run] sample_run
  by (simp add: sample_notebook_def sample_cleaned_def dated_row_def ranked_row_def)

subsection \<open>An empty filtered table\<close>

text \<open>
  C4, as stated, fails: on a file whose only record is French the filtered table is empty,
  and the run raises nothing. The latest date is the null date, both snapshots are empty,
  and the null date is what the cell prints.
\<close>

theorem empty_filtered_counterexample:
  "run_notebook round_sample iso_date (Some france_csv) = Inr france_notebook \<and>
   filtered_table france_notebook = [] \<and>
   snapshot_date france_notebook = NaT \<and>
   latest_snapshot france_notebook = [] \<and>
   df_global_latest france_notebook = [] \<and>
   last (printed france_notebook) = LatestDate 6 NaT"
  using france_run by (simp add: france_notebook_def)

text \<open>
  C4, amended. When the dates parse and no record is of a configured country, the run
  raises nothing: the filtered table is empty, its latest date is the null date \<open>NaT\<close>,
  which is carried on (it is printed, and the global snapshot is selected with it), and
  both snapshots are empty.
\<close>

theorem empty_filtered_table:
  assumes "to_datetime parse table = Inr df1"
    and "\<forall>r\<in>set table. \<not> isin (location r) countries"
  shows "\<exists>nb. run_notebook rnd parse (Some table) = Inr nb \<and>
           filtered_table nb = [] \<and> snapshot_date nb = NaT \<and> latest_snapshot nb = [] \<and>
           barplot_data nb = [] \<and> df_global_latest nb = [] \<and>
           last (printed nb) = LatestDate (length countries) NaT"
proof -
  from assms(1) obtain c where c: "cell_clean rnd parse table = Inr c"
    using cell_clean_total by blast
  note rows = cell_clean_rows [OF c]
  have "\<forall>l\<in>set (map location (df c)). \<not> isin l countries"
    unfolding to_datetime_locations [OF rows(1)] using assms(2) by simp
  then have "filter (\<lambda>r. isin (location r) countries) (df c) = []"
    by (simp add: filter_empty_conv)
  then have empty: "df_filtered c = []" unfolding rows(2) by simp
  then have latest: "latest_date c = NaT" and snap: "df_latest c = []"
    unfolding rows(3) rows(4) by simp_all
  from run_notebook_clean [OF c] obtain nb
    where nb: "run_notebook rnd parse (Some table) = Inr nb"
      and fields: "filtered_table nb = df_filtered c" "snapshot_date nb = latest_date c"
        "latest_snapshot nb = fst (cell_vaccination rnd (df_latest c))"
        "barplot_data nb = snd (cell_vaccination rnd (df_latest c))"
        "df_global_latest nb = cell_choropleth (df c) (latest_date c)"
    by blast
  have "latest_snapshot nb = []" "barplot_data nb = []"
    unfolding fields snap by (simp_all add: cell_vaccination_def sort_values_desc_def)
  moreover have "df_global_latest nb = []"
    unfolding fields latest by (simp add: cell_choropleth_def date_eq_NaT)
  moreover have "last (printed nb) = LatestDate (length countries) NaT"
    using run_notebook_printed [OF nb] fields(2) latest by simp
  ultimately show ?thesis using nb fields(1,2) empty latest by auto
qed

theorem empty_filtered_table_witness:
  "to_datetime iso_date france_csv = Inr (full_table france_notebook) \<and>
   list_all (\<lambda>r. \<not> isin (location r) countries) france_csv \<and>
   run_notebook round_sample iso_date (Some france_csv) = Inr france_notebook \<and>
   filtered_table france_notebook = [] \<and> snapshot_date france_notebook = NaT \<and>
   latest_snapshot france_notebook = [] \<and> barplot_data france_notebook = [] \<and>
   df_global_latest france_notebook = [] \<and>
   last (printed france_notebook) = LatestDate (length countries) NaT"
proof -
  have none: "\<forall>r\<in>set france_csv. \<not> isin (location r) countries"
    by (simp add: france_csv_def csv_row_def isin_def countries_def)
  from empty_filtered_table [OF france_dates none, of round_sample] france_dates none
    france_run
  show ?thesis by (simp add: list_all_iff)
qed

subsection \<open>A missing input file\<close>

text \<open>
  C5. With the input file absent, cell 1 prints the two instructions and binds nothing;
  cell 2 then prints its header and reads the unbound name \<^verbatim>\<open>df\<close>: the run ends there with
  an uncaught \<^verbatim>\<open>NameError\<close>, before any cleaning.
\<close>

theorem missing_file_raises:
  "cell_load None =
     ([Text ''Error: File not found. Please download the dataset first.'',
       Text ''Download from: https://ourworldindata.org/covid-cases''], None) \<and>
   run_notebook rnd parse None =
     Inl ([Text ''Error: File not found. Please download the dataset first.'',
           Text ''Download from: https://ourworldindata.org/covid-cases'',
           Text [], Text ''=== Dataset Info ===''], NameError ''df'')"
  by (simp add: run_notebook_def cell_load_def cell_explore_def)

subsection \<open>The missing-value fill\<close>

text \<open>
  C6. After the fill no row of the filtered table has a missing entry in any of the seven
  key columns, and an entry that was missing in the full table is 0 in the filtered one
  (any other entry is the one loaded).
\<close>

theorem key_columns_filled:
  assumes "cell_clean rnd parse table = Inr c"
  shows "(\<forall>r\<in>set (df_filtered c).
            total_cases r \<noteq> NaN \<and> new_cases r \<noteq> NaN \<and> total_deaths r \<noteq> NaN \<and>
            new_deaths r \<noteq> NaN \<and> total_vaccinations r \<noteq> NaN \<and>
            people_vaccinated r \<noteq> NaN \<and> population r \<noteq> NaN) \<and>
         list_all2
           (\<lambda>s r. total_cases r = (if total_cases s = NaN then Num 0 else total_cases s) \<and>
                  new_cases r = (if new_cases s = NaN then Num 0 else new_cases s) \<and>
                  total_deaths r = (if total_deaths s = NaN then Num 0 else total_deaths s) \<and>
                  new_deaths r = (if new_deaths s = NaN then Num 0 else new_deaths s) \<and>
                  total_vaccinations r =
                    (if total_vaccinations s = NaN then Num 0 else total_vaccinations s) \<and>
                  people_vaccinated r =
                    (if people_vaccinated s = NaN then Num 0 else people_vaccinated s) \<and>
                  population r = (if population s = NaN then Num 0 else population s))
           (filter (\<lambda>r. isin (location r) countries) (df c)) (df_filtered c)"
proof
  show "\<forall>r\<in>set (df_filtered c).
            total_cases r \<noteq> NaN \<and> new_cases r \<noteq> NaN \<and> total_deaths r \<noteq> NaN \<and>
            new_deaths r \<noteq> NaN \<and> total_vaccinations r \<noteq> NaN \<and>
            people_vaccinated r \<noteq> NaN \<and> population r \<noteq> NaN"
  proof
    fix r assume "r \<in> set (df_filtered c)"
    with assms obtain s where "r = derived_row rnd s" by (rule filtered_row_origin)
    then show "total_cases r \<noteq> NaN \<and> new_cases r \<noteq> NaN \<and> total_deaths r \<noteq> NaN \<and>
            new_deaths r \<noteq> NaN \<and> total_vaccinations r \<noteq> NaN \<and>
            people_vaccinated r \<noteq> NaN \<and> population r \<noteq> NaN"
      by (simp add: derived_row_fields)
  qed
next
  show "list_all2
           (\<lambda>s r. total_cases r = (if total_cases s = NaN then Num 0 else total_cases s) \<and>
                  new_cases r = (if new_cases s = NaN then Num 0 else new_cases s) \<and>
                  total_deaths r = (if total_deaths s = NaN then Num 0 else total_deaths s) \<and>
                  new_deaths r = (if new_deaths s = NaN then Num 0 else new_deaths s) \<and>
                  total_vaccinations r =
                    (if total_vaccinations s = NaN then Num 0 else total_vaccinations s) \<and>
                  people_vaccinated r =
                    (if people_vaccinated s = NaN then Num 0 else people_vaccinated s) \<and>
                  population r = (if population s = NaN then Num 0 else population s))
           (filter (\<lambda>r. isin (location r) countries) (df c)) (df_filtered c)"
    by (rule list_all2_mono [OF filtered_rows_related [OF assms]])
      (simp add: derived_row_fields)
qed

theorem key_columns_filled_witness:
  "cell_clean round_sample iso_date sample_csv = Inr sample_cleaned \<and>
   list_all
     (\<lambda>r. total_cases r \<noteq> NaN \<and> new_cases r \<noteq> NaN \<and> total_deaths r \<noteq> NaN \<and>
          new_deaths r \<noteq> NaN \<and> total_vaccinations r \<noteq> NaN \<and>
          people_vaccinated r \<noteq> NaN \<and> population r \<noteq> NaN)
     (df_filtered sample_cleaned) \<and>
   map population (filter (\<lambda>r. isin (location r) countries) (df sample_cleaned)) =
     [Num 200, Num 200, NaN, Num 67] \<and>
   map population (df_filtered sample_cleaned) = [Num 200, Num 200, Num 0, Num 67] \<and>
   map new_cases (filter (\<lambda>r. isin (location r) countries) (df sample_cleaned)) =
     [NaN, NaN, NaN, NaN] \<and>
   map new_cases (df_filtered sample_cleaned) = [Num 0, Num 0, Num 0, Num 0]"
  using key_columns_filled [OF sample_clean] sample_clean
  by (simp add: sample_cleaned_def cleaned_row_def dated_row_def isin_def countries_def)

subsection \<open>What the fill leaves untouched\<close>

text \<open>
  C7. The fill touches neither the full table nor any column outside the seven. Every row
  of the full table, inside or outside the configured countries, still has the loaded entry
  in every column but \<open>date\<close>, so an entry that was missing is still missing; a missing
  date is the null date. In the filtered table the columns outside the seven are those of
  the full table's row, missing where that one was.
\<close>

theorem fill_confined:
  assumes "cell_clean rnd parse table = Inr c"
  shows "list_all2
           (\<lambda>s r. r = s\<lparr>date := date r\<rparr> \<and> (date s = DateMissing \<longrightarrow> date r = DateTime NaT))
           table (df c) \<and>
         list_all2
           (\<lambda>s r. location r = location s \<and> iso_code r = iso_code s \<and> date r = date s \<and>
                  total_cases_per_million r = total_cases_per_million s \<and>
                  other_columns r = other_columns s)
           (filter (\<lambda>r. isin (location r) countries) (df c)) (df_filtered c)"
proof
  note rows = cell_clean_rows [OF assms]
  show "list_all2
           (\<lambda>s r. r = s\<lparr>date := date r\<rparr> \<and> (date s = DateMissing \<longrightarrow> date r = DateTime NaT))
           table (df c)"
    by (rule list_all2_mono [OF to_datetime_rows [OF rows(1)]]) auto
  show "list_all2
           (\<lambda>s r. location r = location s \<and> iso_code r = iso_code s \<and> date r = date s \<and>
                  total_cases_per_million r = total_cases_per_million s \<and>
                  other_columns r = other_columns s)
           (filter (\<lambda>r. isin (location r) countries) (df c)) (df_filtered c)"
    by (rule list_all2_mono [OF filtered_rows_related [OF assms]])
      (simp add: derived_row_fields)
qed

theorem fill_confined_witness:
  "cell_clean round_sample iso_date sample_csv = Inr sample_cleaned \<and>
   map location (df sample_cleaned) =
     [Some ''Brazil'', Some ''Brazil'', Some ''Kenya'', Some ''United Kingdom'', Some ''France''] \<and>
   map total_cases sample_csv = [Num 90, Num 100, Num 0, Num 40, NaN] \<and>
   map total_cases (df sample_cleaned) = [Num 90, Num 100, Num 0, Num 40, NaN] \<and>
   map population sample_csv = [Num 200, Num 200, NaN, Num 67, Num 65] \<and>
   map population (df sample_cleaned) = [Num 200, Num 200, NaN, Num 67, Num 65] \<and>
   map total_cases_per_million (df_filtered sample_cleaned) = [NaN, NaN, NaN, NaN] \<and>
   map iso_code (df_filtered sample_cleaned) = [None, None, None, None]"
  using fill_confined [OF sample_clean] sample_clean
  by (simp add: sample_cleaned_def sample_csv_def csv_row_def cleaned_row_def dated_row_def)

subsection \<open>The country filter\<close>

text \<open>
  C8. When the dates of the file parse, the run completes; every row of the filtered table
  has the location of a configured country, letter for letter; and a configured name that no
  record carries has no row in the filtered table, which is no error.
\<close>

theorem filtered_locations:
  assumes "to_datetime parse table = Inr df1"
  shows "\<exists>nb. run_notebook rnd parse (Some table) = Inr nb \<and>
           (\<forall>r\<in>set (filtered_table nb). \<exists>name\<in>set countries. location r = Some name) \<and>
           (\<forall>name\<in>set countries. (\<forall>s\<in>set table. location s \<noteq> Some name) \<longrightarrow>
              filter (\<lambda>r. location r = Some name) (filtered_table nb) = [])"
proof -
  from assms obtain c where c: "cell_clean rnd parse table = Inr c"
    using cell_clean_total by blast
  from run_notebook_clean [OF c]
  obtain nb where nb: "run_notebook rnd parse (Some table) = Inr nb"
    and ft: "filtered_table nb = df_filtered c" by blast
  note rows = cell_clean_rows [OF c]
  have origin: "\<exists>s\<in>set table. location s = location r \<and> isin (location r) countries"
    if "r \<in> set (filtered_table nb)" for r
  proof -
    from c that [unfolded ft] obtain s where s: "s \<in> set (df c)"
      "isin (location s) countries" "r = derived_row rnd s" by (rule filtered_row_origin)
    from s(1) have "location s \<in> set (map location (df c))" by simp
    then have "location s \<in> set (map location table)"
      unfolding to_datetime_locations [OF rows(1)] .
    then obtain s0 where "s0 \<in> set table" "location s0 = location s" by auto
    with s \<open>s0 \<in> set table\<close> show ?thesis by (auto simp: derived_row_fields)
  qed
  have "\<forall>r\<in>set (filtered_table nb). \<exists>name\<in>set countries. location r = Some name"
    using origin by (simp add: isin_iff)
  moreover have "\<forall>name\<in>set countries. (\<forall>s\<in>set table. location s \<noteq> Some name) \<longrightarrow>
              filter (\<lambda>r. location r = Some name) (filtered_table nb) = []"
    using origin by (force simp: filter_empty_conv)
  ultimately show ?thesis using nb by blast
qed

theorem filtered_locations_witness:
  "to_datetime iso_date sample_csv = Inr (df sample_cleaned) \<and>
   run_notebook round_sample iso_date (Some sample_csv) = Inr sample_notebook \<and>
   map location sample_csv =
     [Some ''Brazil'', Some ''Brazil'', Some ''Kenya'', Some ''United Kingdom'', Some ''France''] \<and>
   map location (filtered_table sample_notebook) =
     [Some ''Brazil'', Some ''Brazil'', Some ''Kenya'', Some ''United Kingdom''] \<and>
   list_all (\<lambda>r. isin (location r) countries) (filtered_table sample_notebook) \<and>
   filter (\<lambda>r. location r = Some ''South Africa'') (filtered_table sample_notebook) = [] \<and>
   \<not> isin (Some ''kenya'') countries"
  using filtered_locations [OF sample_dates, of round_sample] sample_run sample_dates
  by (simp add: sample_notebook_def sample_cleaned_def sample_csv_def csv_row_def
      cleaned_row_def isin_def countries_def)

subsection \<open>The latest snapshot\<close>

text \<open>
  C9. The country-scoped snapshot is exactly the rows of the filtered table whose date equals
  its latest date; that date is the greatest date of the filtered table; and when the
  full table has at most one record per location and date, the snapshot has at most one
  row for each configured country.
\<close>

theorem latest_snapshot_rows:
  assumes "cell_clean rnd parse table = Inr c"
  shows "df_latest c = filter (\<lambda>r. date_eq (date r) (latest_date c)) (df_filtered c) \<and>
         (\<forall>r\<in>set (df_latest c). date r = DateTime (latest_date c)) \<and>
         (\<forall>t. latest_date c = Stamp t \<longrightarrow>
              (\<exists>r\<in>set (df_filtered c). date r = DateTime (Stamp t))) \<and>
         (\<forall>r\<in>set (df_filtered c). \<forall>u. date r = DateTime (Stamp u) \<longrightarrow>
              (\<exists>t. latest_date c = Stamp t \<and> u \<le> t)) \<and>
         (distinct (map (\<lambda>r. (location r, date r)) (df c)) \<longrightarrow>
            (\<forall>name\<in>set countries.
               length (filter (\<lambda>r. location r = Some name) (df_latest c)) \<le> 1))"
proof (intro conjI)
  note rows = cell_clean_rows [OF assms]
  show latest: "df_latest c = filter (\<lambda>r. date_eq (date r) (latest_date c)) (df_filtered c)"
    by (rule rows(4))
  show same: "\<forall>r\<in>set (df_latest c). date r = DateTime (latest_date c)"
    unfolding latest by (auto simp: date_eq_iff)
  show "\<forall>t. latest_date c = Stamp t \<longrightarrow>
              (\<exists>r\<in>set (df_filtered c). date r = DateTime (Stamp t))"
  proof (intro allI impI)
    fix t assume "latest_date c = Stamp t"
    then have "DateTime (Stamp t) \<in> set (map date (df_filtered c))"
      unfolding rows(3) by (rule series_max_attained)
    then show "\<exists>r\<in>set (df_filtered c). date r = DateTime (Stamp t)" by auto
  qed
  show "\<forall>r\<in>set (df_filtered c). \<forall>u. date r = DateTime (Stamp u) \<longrightarrow>
              (\<exists>t. latest_date c = Stamp t \<and> u \<le> t)"
  proof (intro ballI allI impI)
    fix r u assume "r \<in> set (df_filtered c)" and "date r = DateTime (Stamp u)"
    then have "DateTime (Stamp u) \<in> set (map date (df_filtered c))" by force
    then show "\<exists>t. latest_date c = Stamp t \<and> u \<le> t"
      unfolding rows(3) by (rule series_max_upper)
  qed
  show "distinct (map (\<lambda>r. (location r, date r)) (df c)) \<longrightarrow>
            (\<forall>name\<in>set countries.
               length (filter (\<lambda>r. location r = Some name) (df_latest c)) \<le> 1)"
  proof (intro impI ballI)
    fix name
    assume key: "distinct (map (\<lambda>r. (location r, date r)) (df c))"
    let ?kept = "filter (\<lambda>r. isin (location r) countries) (df c)"
    have "distinct (map (\<lambda>r. (location r, date r)) ?kept)"
      using key by (rule distinct_map_filter)
    moreover have "map (\<lambda>r. (location r, date r)) (df_filtered c) =
        map (\<lambda>r. (location r, date r)) ?kept"
      unfolding rows(2) by (simp add: derived_row_fields o_def)
    ultimately have "distinct (map (\<lambda>r. (location r, date r)) (df_filtered c))" by simp
    then have "distinct (map (\<lambda>r. (location r, date r)) (df_latest c))"
      unfolding latest by (rule distinct_map_filter)
    then have "distinct (map location (df_latest c))"
      using same by (rule distinct_same_date)
    then show "length (filter (\<lambda>r. location r = Some name) (df_latest c)) \<le> 1"
      by (rule distinct_map_count)
  qed
qed

theorem latest_snapshot_rows_witness:
  "cell_clean round_sample iso_date sample_csv = Inr sample_cleaned \<and>
   distinct (map (\<lambda>r. (location r, date r)) (df sample_cleaned)) \<and>
   latest_date sample_cleaned = Stamp 20210401 \<and>
   map date (df_filtered sample_cleaned) =
     [DateTime (Stamp 20210331), DateTime (Stamp 20210401), DateTime (Stamp 20210401),
      DateTime (Stamp 20210401)] \<and>
   df_latest sample_cleaned = tl (df_filtered sample_cleaned) \<and>
   map location (df_latest sample_cleaned) =
     [Some ''Brazil'', Some ''Kenya'', Some ''United Kingdom''] \<and>
   list_all (\<lambda>name. length (filter (\<lambda>r. location r = Some name) (df_latest sample_cleaned)) \<le> 1)
     countries"
  using latest_snapshot_rows [OF sample_clean] sample_clean
  by (simp add: sample_cleaned_def cleaned_row_def dated_row_def countries_def)

subsection \<open>The full table\<close>

text \<open>
  C10, as stated, fails: line 70 overwrites the date column of the full table, so a loaded
  date text is a timestamp from then on.
\<close>

theorem full_table_counterexample:
  "run_notebook round_sample iso_date (Some sample_csv) = Inr sample_notebook \<and>
   map date sample_csv =
     [DateText ''2021-03-31'', DateText ''2021-04-01'', DateText ''2021-04-01'',
      DateText ''2021-04-01'', DateText ''2021-04-02''] \<and>
   map date (full_table sample_notebook) =
     [DateTime (Stamp 20210331), DateTime (Stamp 20210401), DateTime (Stamp 20210401),
      DateTime (Stamp 20210401), DateTime (Stamp 20210402)]"
  using sample_run
  by (simp add: sample_notebook_def sample_cleaned_def sample_csv_def csv_row_def dated_row_def)

text \<open>
  C10, amended. At the end of a run the full table has the loaded rows in the loaded order,
  every column but \<open>date\<close> holding its loaded entry and no column added; the date column
  holds what \<^verbatim>\<open>pd.to_datetime\<close> made of the loaded entry.
\<close>

theorem full_table_frame:
  assumes "run_notebook rnd parse (Some table) = Inr nb"
  shows "list_all2
           (\<lambda>s r. r = s\<lparr>date := date r\<rparr> \<and> to_datetime_cell parse (date s) = Inr (date r))
           table (full_table nb)"
proof -
  from assms obtain c where c: "cell_clean rnd parse table = Inr c" and "full_table nb = df c"
    by (rule run_notebook_Inr)
  with to_datetime_rows [OF cell_clean_rows(1) [OF c]] show ?thesis by simp
qed

theorem full_table_frame_witness:
  "run_notebook round_sample iso_date (Some sample_csv) = Inr sample_notebook \<and>
   length (full_table sample_notebook) = 5 \<and>
   list_all2
     (\<lambda>s r. r = s\<lparr>date := date r\<rparr> \<and> to_datetime_cell iso_date (date s) = Inr (date r))
     sample_csv (full_table sample_notebook) \<and>
   map population (full_table sample_notebook) = map population sample_csv"
  using full_table_frame [OF sample_run] sample_run
  by (simp add: sample_notebook_def sample_cleaned_def sample_csv_def csv_row_def dated_row_def)

end
